theory Spec2Isabelle
  imports Complex_Main
begin

section \<open>Floating-point values\<close>

text \<open>
  The notebooks of the repository compute with numpy arrays and pandas series of binary64
  floats. A float is one of: a finite number \<open>Fin x\<close> of value \<open>x\<close> (\<open>Fin 0\<close> is the
  positive zero), the negative zero, one of the two infinities, or NaN.
\<close>

datatype npfloat = Fin real | NZero | PInf | NInf | NaN

definition is_zero :: "npfloat \<Rightarrow> bool" where
  "is_zero a = (a = Fin 0 \<or> a = NZero)"

definition is_finite :: "npfloat \<Rightarrow> bool" where
  "is_finite a = (a \<noteq> PInf \<and> a \<noteq> NInf \<and> a \<noteq> NaN)"

fun fval :: "npfloat \<Rightarrow> real" where
  "fval (Fin x) = x"
| "fval _ = 0"

fun frank :: "npfloat \<Rightarrow> int" where
  "frank NInf = - 1"
| "frank PInf = 1"
| "frank _ = 0"

text \<open>
  The comparison \<open>a > b\<close> of two floats is exact: false as soon as one of them is NaN,
  and the two zeros are equal.
\<close>

definition fgt :: "npfloat \<Rightarrow> npfloat \<Rightarrow> bool" where
  "fgt a b = (a \<noteq> NaN \<and> b \<noteq> NaN \<and>
              (frank b < frank a \<or> (frank b = frank a \<and> fval b < fval a)))"

section \<open>The numeric library\<close>

text \<open>
  The arithmetic of numpy and pandas is not part of the repository, and what it returns
  depends on binary64 rounding and on the order in which the library sums. The
  functions the two notebook cells call are therefore parameters of the model: the
  subtraction and the division of two array elements, \<open>np.nanstd\<close> of one column, and
  \<open>Series.mean()\<close>.
\<close>

record numlib =
  np_sub :: "npfloat \<Rightarrow> npfloat \<Rightarrow> npfloat"
  np_div :: "npfloat \<Rightarrow> npfloat \<Rightarrow> npfloat"
  np_nanstd :: "npfloat list \<Rightarrow> npfloat"
  pd_mean :: "npfloat list \<Rightarrow> npfloat"

text \<open>
  What IEEE 754 arithmetic in round-to-nearest fixes about these functions whatever the
  rounding. numpy does not raise on a division by zero of array elements.
  \<^item> A difference is finite only when both operands are.
  \<^item> A quotient is finite only when the dividend is finite and the divisor is not a zero.
  \<^item> \<open>c - c\<close> is the positive zero for a finite \<open>c\<close>, and the difference of two zeros is
    a zero.
  \<^item> A zero divided by anything but a zero or NaN is a zero; a zero divided by a zero or
    by NaN is NaN.
  \<^item> The standard deviation of a column of zeros is a zero.
\<close>

definition ieee754 :: "numlib \<Rightarrow> bool" where
  "ieee754 lib =
     ((\<forall>a b. is_finite (np_sub lib a b) \<longrightarrow> is_finite a \<and> is_finite b)
    \<and> (\<forall>a b. is_finite (np_div lib a b) \<longrightarrow> is_finite a \<and> \<not> is_zero b)
    \<and> (\<forall>c. is_finite c \<longrightarrow> np_sub lib c c = Fin 0)
    \<and> (\<forall>a b. is_zero a \<and> is_zero b \<longrightarrow> is_zero (np_sub lib a b))
    \<and> (\<forall>a b. is_zero a \<and> \<not> is_zero b \<and> b \<noteq> NaN \<longrightarrow> is_zero (np_div lib a b))
    \<and> (\<forall>a b. is_zero a \<and> (is_zero b \<or> b = NaN) \<longrightarrow> np_div lib a b = NaN)
    \<and> (\<forall>xs. xs \<noteq> [] \<and> (\<forall>x\<in>set xs. is_zero x) \<longrightarrow> is_zero (np_nanstd lib xs)))"

section \<open>Python sequences\<close>

datatype py_error = IndexError | AttributeError

text \<open>
  Indexing \<open>xs[i]\<close> with a Python integer: a negative index counts from the end, and an
  index outside the sequence raises IndexError.
\<close>

definition py_index :: "'a list \<Rightarrow> int \<Rightarrow> py_error + 'a" where
  "py_index xs i =
     (let pos = (if i < 0 then i + int (length xs) else i)
      in if pos < 0 \<or> int (length xs) \<le> pos then Inl IndexError else Inr (xs ! nat pos))"

text \<open>
  The slice \<open>xs[:stop]\<close>: a negative stop counts from the end, and a stop outside the
  sequence is clamped to it (a slice never raises).
\<close>

definition py_slice_stop :: "'a list \<Rightarrow> int \<Rightarrow> 'a list" where
  "py_slice_stop xs stop =
     take (nat (if stop < 0 then max 0 (stop + int (length xs)) else stop)) xs"

section \<open>The momentum factor\<close>

text \<open>
  \<open>Factor Analysis.ipynb\<close>: the class \<open>MyFactor\<close>, a custom factor over the inputs
  \<open>USEquityPricing.close\<close> and \<open>Returns(window_length=126)\<close> with \<open>window_length = 252\<close>.
  The platform calls \<open>compute\<close> with two arrays of \<open>window_length\<close> rows (one per
  day, oldest first) and one column per asset; an array is the list of its rows.
  Arithmetic on rows is elementwise, and \<open>np.nanstd(returns, axis=0)\<close> is the standard
  deviation of each column. The parameters \<open>self\<close>, \<open>today\<close> and \<open>assets\<close> are not
  read; the array assigned to \<open>out[:]\<close> is the result. The two arrays are separate
  inputs: a row of \<open>returns\<close> is the return over the 126 days that end on that day, so
  its first 125 rows read prices from before the window of \<open>prices\<close>.
\<close>

definition window_length :: nat where
  "window_length = 252"

definition vsub :: "numlib \<Rightarrow> npfloat list \<Rightarrow> npfloat list \<Rightarrow> npfloat list" where
  "vsub lib xs ys = map2 (np_sub lib) xs ys"

definition vdiv :: "numlib \<Rightarrow> npfloat list \<Rightarrow> npfloat list \<Rightarrow> npfloat list" where
  "vdiv lib xs ys = map2 (np_div lib) xs ys"

definition ncols :: "'a list list \<Rightarrow> nat" where
  "ncols rows = (case rows of [] \<Rightarrow> 0 | r # _ \<Rightarrow> length r)"

definition column :: "'a list list \<Rightarrow> nat \<Rightarrow> 'a list" where
  "column rows j = map (\<lambda>r. r ! j) rows"

definition nanstd_axis0 :: "numlib \<Rightarrow> npfloat list list \<Rightarrow> npfloat list" where
  "nanstd_axis0 lib rows = map (\<lambda>j. np_nanstd lib (column rows j)) [0..<ncols rows]"

definition compute ::
  "numlib \<Rightarrow> npfloat list list \<Rightarrow> npfloat list list \<Rightarrow> py_error + npfloat list" where
  "compute lib prices returns =
     (case py_index prices (- 21) of Inl e \<Rightarrow> Inl e | Inr p21 \<Rightarrow>
       (case py_index prices (- 252) of Inl e \<Rightarrow> Inl e | Inr p252 \<Rightarrow>
         (case py_index prices (- 1) of Inl e \<Rightarrow> Inl e | Inr p1 \<Rightarrow>
            Inr (vdiv lib
                   (vsub lib (vdiv lib (vsub lib p21 p252) p252)
                             (vdiv lib (vsub lib p1 p21) p21))
                   (nanstd_axis0 lib returns)))))"

text \<open>
  The numerator of the value that \<open>compute\<close> gives one asset, from the three prices
  it reads in the asset's column: the change from \<open>prices[-252]\<close> to \<open>prices[-21]\<close>
  less the change from \<open>prices[-21]\<close> to \<open>prices[-1]\<close>, each relative to its start.
\<close>

definition momentum :: "numlib \<Rightarrow> npfloat \<Rightarrow> npfloat \<Rightarrow> npfloat \<Rightarrow> npfloat" where
  "momentum lib p252 p21 p1 =
     np_sub lib (np_div lib (np_sub lib p21 p252) p252) (np_div lib (np_sub lib p1 p21) p21)"

section \<open>The moving-average crossover algorithm\<close>

text \<open>
  \<open>Algo Trading Tutorial - Lesson 3 (Schedule Function)\<close>: \<open>initialize\<close> stores the asset
  \<open>sid(24)\<close> in the context and has the platform call \<open>ma_crossover_handling\<close> every
  day, one hour after the market opens (the schedule is the platform's: the model is of
  one call).
  The platform is not part of the repository, so what the handler reads from it is a
  parameter: \<open>data.history\<close> (the price history), the dictionary that
  \<open>get_open_orders()\<close> returns (keyed by asset), and the attributes of
  \<open>context.account\<close> (by name). The context object is the record \<open>algo_context\<close>,
  written \<open>ctx\<close>. What the handler does to the platform is kept in a state: the log
  lines, the orders placed and the values recorded, oldest first.
\<close>

type_synonym asset = nat

definition sid :: "nat \<Rightarrow> asset" where
  "sid n = n"

record algo_context =
  aapl :: asset
  account :: "string \<rightharpoonup> npfloat"

type_synonym bar_data = "asset \<Rightarrow> string \<Rightarrow> nat \<Rightarrow> string \<Rightarrow> npfloat list"

record platform =
  logged :: "npfloat list list"
  placed :: "(asset \<times> real) list"
  recorded :: "(string \<times> npfloat) list"

definition initialize :: "algo_context \<Rightarrow> algo_context" where
  "initialize ctx = ctx\<lparr>aapl := sid 24\<rparr>"

definition order_target_percent :: "asset \<Rightarrow> real \<Rightarrow> platform \<Rightarrow> platform" where
  "order_target_percent a target p = p\<lparr>placed := placed p @ [(a, target)]\<rparr>"

text \<open>
  The two local variables of the handler: \<open>sma_50 = hist.mean()\<close> and
  \<open>sma_20 = hist[:-20].mean()\<close>, each the float that the library's mean returns.
\<close>

definition sma_50 :: "numlib \<Rightarrow> npfloat list \<Rightarrow> npfloat" where
  "sma_50 lib hist = pd_mean lib hist"

definition sma_20 :: "numlib \<Rightarrow> npfloat list \<Rightarrow> npfloat" where
  "sma_20 lib hist = pd_mean lib (py_slice_stop hist (- 20))"

text \<open>
  The handler returns the platform state it leaves and the exception it ends with, if
  any: the last line reads the attribute \<open>leverate\<close> of the account, which raises
  AttributeError when the account has no attribute of that name. The orders placed
  before stay placed.
\<close>

definition ma_crossover_handling ::
  "numlib \<Rightarrow> algo_context \<Rightarrow> bar_data \<Rightarrow> (asset \<rightharpoonup> 'o) \<Rightarrow> platform
     \<Rightarrow> py_error option \<times> platform" where
  "ma_crossover_handling lib ctx data open_orders p =
     (let hist = data (aapl ctx) ''price'' 50 ''1d'';
          p1 = p\<lparr>logged := logged p @ [take 5 hist]\<rparr>;
          p2 = (if fgt (sma_20 lib hist) (sma_50 lib hist) then
                  (if aapl ctx \<notin> dom open_orders
                   then order_target_percent (aapl ctx) 1 p1 else p1)
                else if fgt (sma_50 lib hist) (sma_20 lib hist) then
                  (if aapl ctx \<notin> dom open_orders
                   then order_target_percent (aapl ctx) (- 1) p1 else p1)
                else p1)
      in case account ctx ''leverate'' of
           None \<Rightarrow> (Some AttributeError, p2)
         | Some v \<Rightarrow> (None, p2\<lparr>recorded := recorded p2 @ [(''leverage'', v)]\<rparr>))"

section \<open>An instance of the numeric library: arithmetic without rounding\<close>

text \<open>
  The theorems below hold for every numeric library. To apply them to concrete arrays
  one library is written out: IEEE 754 arithmetic in which a finite result is not rounded
  and never overflows. It has the special values and the signs of zero of binary64, and
  it returns what binary64 returns wherever no operation rounds or overflows; it is not
  numpy's arithmetic elsewhere.
\<close>

fun signbit :: "npfloat \<Rightarrow> bool" where
  "signbit (Fin x) = (x < 0)"
| "signbit NZero = True"
| "signbit PInf = False"
| "signbit NInf = True"
| "signbit NaN = False"

definition is_inf :: "npfloat \<Rightarrow> bool" where
  "is_inf a = (a = PInf \<or> a = NInf)"

definition zero_of :: "bool \<Rightarrow> npfloat" where
  "zero_of s = (if s then NZero else Fin 0)"

definition inf_of :: "bool \<Rightarrow> npfloat" where
  "inf_of s = (if s then NInf else PInf)"

text \<open>The finite float of magnitude \<open>m\<close> with sign bit \<open>s\<close>.\<close>

definition signed :: "bool \<Rightarrow> real \<Rightarrow> npfloat" where
  "signed s m = (if m = 0 then zero_of s else Fin (if s then - m else m))"

fun exact_neg :: "npfloat \<Rightarrow> npfloat" where
  "exact_neg (Fin x) = (if x = 0 then NZero else Fin (- x))"
| "exact_neg NZero = Fin 0"
| "exact_neg PInf = NInf"
| "exact_neg NInf = PInf"
| "exact_neg NaN = NaN"

definition exact_add :: "npfloat \<Rightarrow> npfloat \<Rightarrow> npfloat" where
  "exact_add a b =
     (if a = NaN \<or> b = NaN then NaN
      else if is_inf a \<and> is_inf b then (if a = b then a else NaN)
      else if is_inf a then a
      else if is_inf b then b
      else if is_zero a \<and> is_zero b then zero_of (signbit a \<and> signbit b)
      else Fin (fval a + fval b))"

definition exact_sub :: "npfloat \<Rightarrow> npfloat \<Rightarrow> npfloat" where
  "exact_sub a b = exact_add a (exact_neg b)"

definition exact_mul :: "npfloat \<Rightarrow> npfloat \<Rightarrow> npfloat" where
  "exact_mul a b =
     (if a = NaN \<or> b = NaN then NaN
      else if (is_inf a \<and> is_zero b) \<or> (is_zero a \<and> is_inf b) then NaN
      else if is_inf a \<or> is_inf b then inf_of (signbit a \<noteq> signbit b)
      else signed (signbit a \<noteq> signbit b) (\<bar>fval a\<bar> * \<bar>fval b\<bar>))"

definition exact_div :: "npfloat \<Rightarrow> npfloat \<Rightarrow> npfloat" where
  "exact_div a b =
     (if a = NaN \<or> b = NaN then NaN
      else if (is_inf a \<and> is_inf b) \<or> (is_zero a \<and> is_zero b) then NaN
      else if is_inf a \<or> is_zero b then inf_of (signbit a \<noteq> signbit b)
      else if is_inf b then zero_of (signbit a \<noteq> signbit b)
      else signed (signbit a \<noteq> signbit b) (\<bar>fval a\<bar> / \<bar>fval b\<bar>))"

definition exact_sqrt :: "npfloat \<Rightarrow> npfloat" where
  "exact_sqrt a =
     (if a = NaN then NaN
      else if is_zero a then a
      else if signbit a then NaN
      else if a = PInf then PInf
      else Fin (sqrt (fval a)))"

definition exact_sum :: "npfloat list \<Rightarrow> npfloat" where
  "exact_sum xs = (case xs of [] \<Rightarrow> Fin 0 | x # ys \<Rightarrow> foldl exact_add x ys)"

definition dropna :: "npfloat list \<Rightarrow> npfloat list" where
  "dropna xs = filter (\<lambda>x. x \<noteq> NaN) xs"

text \<open>
  The mean that skips NaN entries: the sum of the other entries over their count, and NaN
  when there is none.
\<close>

definition exact_mean :: "npfloat list \<Rightarrow> npfloat" where
  "exact_mean xs = (let vs = dropna xs in exact_div (exact_sum vs) (Fin (real (length vs))))"

text \<open>
  The standard deviation that skips NaN entries (\<open>ddof = 0\<close>): the mean of the others is
  subtracted from each, and the result is the square root of the mean of the squared
  deviations; NaN when every entry is NaN.
\<close>

definition exact_nanstd :: "npfloat list \<Rightarrow> npfloat" where
  "exact_nanstd xs =
     (let vs = dropna xs;
          cnt = Fin (real (length vs));
          avg = exact_div (exact_sum vs) cnt;
          sqr = map (\<lambda>x. exact_mul (exact_sub x avg) (exact_sub x avg)) vs
      in exact_sqrt (exact_div (exact_sum sqr) cnt))"

definition exact :: numlib where
  "exact = \<lparr>np_sub = exact_sub, np_div = exact_div, np_nanstd = exact_nanstd,
            pd_mean = exact_mean\<rparr>"

text \<open>The squared deviations of finite values from their mean.\<close>

definition sqdev :: "real list \<Rightarrow> real list" where
  "sqdev ps =
     map (\<lambda>x. (x - sum_list ps / real (length ps)) * (x - sum_list ps / real (length ps))) ps"

section \<open>Facts about the arithmetic without rounding\<close>

lemma exact_add_Fin: "exact_add (Fin x) (Fin y) = Fin (x + y)"
  by (simp add: exact_add_def is_inf_def is_zero_def zero_of_def)

lemma exact_sub_Fin: "exact_sub (Fin x) (Fin y) = Fin (x - y)"
  by (simp add: exact_sub_def exact_add_def is_inf_def is_zero_def zero_of_def)

lemma exact_div_Fin_pos: "0 < n \<Longrightarrow> exact_div (Fin x) (Fin n) = Fin (x / n)"
  by (auto simp: exact_div_def is_inf_def is_zero_def zero_of_def signed_def abs_if)

lemma exact_mul_self: "exact_mul (Fin d) (Fin d) = Fin (d * d)"
  by (simp add: exact_mul_def is_inf_def is_zero_def zero_of_def signed_def)

lemma foldl_exact_add_Fin: "foldl exact_add (Fin a) (map Fin ps) = Fin (a + sum_list ps)"
  by (induction ps arbitrary: a) (simp_all add: exact_add_Fin add.assoc)

lemma exact_sum_map_Fin: "exact_sum (map Fin ps) = Fin (sum_list ps)"
  by (cases ps) (simp_all add: exact_sum_def foldl_exact_add_Fin)

lemma dropna_map_Fin: "dropna (map Fin ps) = map Fin ps"
  by (induction ps) (simp_all add: dropna_def)

lemma exact_mean_map_Fin:
  "ps \<noteq> [] \<Longrightarrow> exact_mean (map Fin ps) = Fin (sum_list ps / real (length ps))"
  by (simp add: exact_mean_def dropna_map_Fin exact_sum_map_Fin exact_div_Fin_pos)

lemma exact_mean_replicate_Fin: "0 < n \<Longrightarrow> exact_mean (replicate n (Fin c)) = Fin c"
  using exact_mean_map_Fin [of "replicate n c"] by (simp add: sum_list_replicate)

lemma exact_sqrt_Fin: "0 \<le> v \<Longrightarrow> exact_sqrt (Fin v) = Fin (sqrt v)"
  by (auto simp: exact_sqrt_def is_zero_def)

lemma exact_nanstd_map_Fin:
  assumes "ps \<noteq> []"
  shows "exact_nanstd (map Fin ps) = Fin (sqrt (sum_list (sqdev ps) / real (length ps)))"
proof -
  let ?m = "sum_list ps / real (length ps)"
  have n: "0 < real (length ps)" using assms by simp
  have avg: "exact_div (exact_sum (map Fin ps)) (Fin (real (length ps))) = Fin ?m"
    using n by (simp add: exact_sum_map_Fin exact_div_Fin_pos)
  have sq: "map (\<lambda>x. exact_mul (exact_sub x (Fin ?m)) (exact_sub x (Fin ?m))) (map Fin ps)
            = map Fin (sqdev ps)"
    by (simp add: exact_sub_Fin exact_mul_self sqdev_def)
  have nonneg: "0 \<le> sum_list (sqdev ps) / real (length ps)"
    unfolding sqdev_def by (intro divide_nonneg_nonneg sum_list_nonneg) auto
  have "exact_nanstd (map Fin ps) =
        exact_sqrt (exact_div (exact_sum (map (\<lambda>x. exact_mul (exact_sub x (Fin ?m))
                      (exact_sub x (Fin ?m))) (map Fin ps))) (Fin (real (length ps))))"
    by (simp only: exact_nanstd_def Let_def dropna_map_Fin avg length_map)
  also have "\<dots> = exact_sqrt (exact_div (Fin (sum_list (sqdev ps))) (Fin (real (length ps))))"
    by (simp only: sq exact_sum_map_Fin)
  also have "\<dots> = Fin (sqrt (sum_list (sqdev ps) / real (length ps)))"
    using n nonneg by (simp add: exact_div_Fin_pos exact_sqrt_Fin)
  finally show ?thesis .
qed

text \<open>Zeros stay zeros in the arithmetic without rounding.\<close>

lemma is_zero_exact_add: "is_zero a \<Longrightarrow> is_zero b \<Longrightarrow> is_zero (exact_add a b)"
  by (auto simp: is_zero_def exact_add_def is_inf_def zero_of_def)

lemma is_zero_exact_neg: "is_zero a \<Longrightarrow> is_zero (exact_neg a)"
  by (auto simp: is_zero_def)

lemma is_zero_exact_sub: "is_zero a \<Longrightarrow> is_zero b \<Longrightarrow> is_zero (exact_sub a b)"
  by (simp add: exact_sub_def is_zero_exact_add is_zero_exact_neg)

lemma is_zero_exact_mul: "is_zero a \<Longrightarrow> is_zero b \<Longrightarrow> is_zero (exact_mul a b)"
  by (auto simp: is_zero_def exact_mul_def is_inf_def zero_of_def signed_def)

lemma is_zero_exact_div: "is_zero a \<Longrightarrow> \<not> is_zero b \<Longrightarrow> b \<noteq> NaN \<Longrightarrow> is_zero (exact_div a b)"
  by (cases b) (auto simp: is_zero_def exact_div_def is_inf_def zero_of_def signed_def)

lemma is_zero_exact_sqrt: "is_zero a \<Longrightarrow> is_zero (exact_sqrt a)"
  by (auto simp: is_zero_def exact_sqrt_def)

lemma is_zero_foldl: "is_zero x \<Longrightarrow> \<forall>y\<in>set ys. is_zero y \<Longrightarrow> is_zero (foldl exact_add x ys)"
  by (induction ys arbitrary: x) (simp_all add: is_zero_exact_add)

lemma is_zero_exact_sum: "\<forall>y\<in>set xs. is_zero y \<Longrightarrow> is_zero (exact_sum xs)"
  by (cases xs) (simp_all add: exact_sum_def is_zero_foldl, simp add: is_zero_def)

lemma dropna_zeros: "\<forall>y\<in>set xs. is_zero y \<Longrightarrow> dropna xs = xs"
  by (induction xs) (auto simp: dropna_def is_zero_def)

lemma is_zero_exact_nanstd:
  assumes ne: "xs \<noteq> []" and z: "\<forall>x\<in>set xs. is_zero x"
  shows "is_zero (exact_nanstd xs)"
proof -
  let ?cnt = "Fin (real (length xs))"
  have cnt: "\<not> is_zero ?cnt" "?cnt \<noteq> NaN" using ne by (simp_all add: is_zero_def)
  let ?avg = "exact_div (exact_sum xs) ?cnt"
  have avg: "is_zero ?avg"
    using z cnt by (simp add: is_zero_exact_div is_zero_exact_sum)
  let ?sqr = "map (\<lambda>x. exact_mul (exact_sub x ?avg) (exact_sub x ?avg)) xs"
  have "\<forall>y\<in>set ?sqr. is_zero y"
    using z avg by (simp add: is_zero_exact_mul is_zero_exact_sub)
  then have "is_zero (exact_div (exact_sum ?sqr) ?cnt)"
    using cnt by (simp add: is_zero_exact_div is_zero_exact_sum)
  then have "is_zero (exact_sqrt (exact_div (exact_sum ?sqr) ?cnt))"
    by (rule is_zero_exact_sqrt)
  then show ?thesis
    by (simp add: exact_nanstd_def Let_def dropna_zeros [OF z])
qed

lemma exact_sub_finite: "is_finite (exact_sub a b) \<Longrightarrow> is_finite a \<and> is_finite b"
  by (cases a; cases b)
     (auto simp: is_finite_def exact_sub_def exact_add_def is_inf_def is_zero_def zero_of_def
           split: if_splits)

lemma exact_div_finite: "is_finite (exact_div a b) \<Longrightarrow> is_finite a \<and> \<not> is_zero b"
  by (cases a; cases b)
     (auto simp: is_finite_def exact_div_def is_inf_def is_zero_def zero_of_def inf_of_def
                 signed_def split: if_splits)

lemma exact_sub_self: "is_finite c \<Longrightarrow> exact_sub c c = Fin 0"
  by (cases c) (auto simp: is_finite_def exact_sub_def exact_add_def is_inf_def is_zero_def zero_of_def)

lemma exact_div_zero_nan: "is_zero a \<Longrightarrow> is_zero b \<or> b = NaN \<Longrightarrow> exact_div a b = NaN"
  by (auto simp: exact_div_def is_zero_def)

lemma ieee754_exact: "ieee754 exact"
  unfolding ieee754_def exact_def
  by (simp add: is_zero_exact_sub is_zero_exact_div exact_sub_self exact_div_zero_nan
                is_zero_exact_nanstd)
     (blast dest: exact_sub_finite exact_div_finite)



section \<open>Facts about indexing, slicing and comparison\<close>

text \<open>
  In a window of 252 rows the indices \<open>-21\<close>, \<open>-252\<close> and \<open>-1\<close> are the rows 231, 0 and
  251, counted from 0.
\<close>

lemma py_index_252:
  "length xs = 252 \<Longrightarrow> py_index xs (- 21) = Inr (xs ! 231)"
  "length xs = 252 \<Longrightarrow> py_index xs (- 252) = Inr (xs ! 0)"
  "length xs = 252 \<Longrightarrow> py_index xs (- 1) = Inr (xs ! 251)"
  by (simp_all add: py_index_def)

lemma py_slice_stop_neg:
  "0 < k \<Longrightarrow> py_slice_stop xs (- int k) = take (length xs - k) xs"
  by (simp add: py_slice_stop_def max_def nat_diff_distrib')

lemma py_slice_stop_50: "length hist = 50 \<Longrightarrow> py_slice_stop hist (- 20) = take 30 hist"
  using py_slice_stop_neg [of 20 hist] by simp

lemma fgt_irrefl: "\<not> fgt a a"
  by (simp add: fgt_def)

lemma ncols_rect: "rows \<noteq> [] \<Longrightarrow> \<forall>r\<in>set rows. length r = n \<Longrightarrow> ncols rows = n"
  by (cases rows) (simp_all add: ncols_def)


section \<open>What follows from IEEE 754 for every numeric library\<close>

lemma ieee_sub_finite:
  assumes "ieee754 lib" and "is_finite (np_sub lib a b)"
  shows "is_finite a \<and> is_finite b"
proof -
  have "\<forall>a b. is_finite (np_sub lib a b) \<longrightarrow> is_finite a \<and> is_finite b"
    by (insert assms(1), unfold ieee754_def, elim conjE, assumption)
  with assms(2) show ?thesis by blast
qed

lemma ieee_div_finite:
  assumes "ieee754 lib" and "is_finite (np_div lib a b)"
  shows "is_finite a \<and> \<not> is_zero b"
proof -
  have "\<forall>a b. is_finite (np_div lib a b) \<longrightarrow> is_finite a \<and> \<not> is_zero b"
    by (insert assms(1), unfold ieee754_def, elim conjE, assumption)
  with assms(2) show ?thesis by blast
qed

lemma ieee_sub_self:
  assumes "ieee754 lib" and "is_finite c"
  shows "np_sub lib c c = Fin 0"
proof -
  have "\<forall>c. is_finite c \<longrightarrow> np_sub lib c c = Fin 0"
    by (insert assms(1), unfold ieee754_def, elim conjE, assumption)
  with assms(2) show ?thesis by blast
qed

lemma ieee_sub_zeros:
  assumes "ieee754 lib" and "is_zero a" and "is_zero b"
  shows "is_zero (np_sub lib a b)"
proof -
  have "\<forall>a b. is_zero a \<and> is_zero b \<longrightarrow> is_zero (np_sub lib a b)"
    by (insert assms(1), unfold ieee754_def, elim conjE, assumption)
  with assms(2,3) show ?thesis by blast
qed

lemma ieee_div_zero:
  assumes "ieee754 lib" and "is_zero a" and "\<not> is_zero b" and "b \<noteq> NaN"
  shows "is_zero (np_div lib a b)"
proof -
  have "\<forall>a b. is_zero a \<and> \<not> is_zero b \<and> b \<noteq> NaN \<longrightarrow> is_zero (np_div lib a b)"
    by (insert assms(1), unfold ieee754_def, elim conjE, assumption)
  with assms(2,3,4) show ?thesis by blast
qed

lemma ieee_div_nan:
  assumes "ieee754 lib" and "is_zero a" and "is_zero b \<or> b = NaN"
  shows "np_div lib a b = NaN"
proof -
  have "\<forall>a b. is_zero a \<and> (is_zero b \<or> b = NaN) \<longrightarrow> np_div lib a b = NaN"
    by (insert assms(1), unfold ieee754_def, elim conjE, assumption)
  with assms(2,3) show ?thesis by blast
qed

lemma ieee_nanstd_zeros:
  assumes "ieee754 lib" and "xs \<noteq> []" and "\<forall>x\<in>set xs. is_zero x"
  shows "is_zero (np_nanstd lib xs)"
proof -
  have "\<forall>xs. xs \<noteq> [] \<and> (\<forall>x\<in>set xs. is_zero x) \<longrightarrow> is_zero (np_nanstd lib xs)"
    by (insert assms(1), unfold ieee754_def, elim conjE, assumption)
  with assms(2,3) show ?thesis by blast
qed


section \<open>The momentum factor: unguarded divisors\<close>

lemma momentum_finite:
  assumes lib: "ieee754 lib" and fin: "is_finite (momentum lib p252 p21 p1)"
  shows "\<not> is_zero p252 \<and> \<not> is_zero p21"
proof -
  from fin have "is_finite (np_div lib (np_sub lib p21 p252) p252)"
    and "is_finite (np_div lib (np_sub lib p1 p21) p21)"
    unfolding momentum_def using ieee_sub_finite [OF lib] by blast+
  then show ?thesis using ieee_div_finite [OF lib] by blast
qed

lemma momentum_constant:
  assumes lib: "ieee754 lib" and c: "is_finite c" "\<not> is_zero c"
  shows "is_zero (momentum lib c c c)"
proof -
  have s: "np_sub lib c c = Fin 0" using lib c(1) by (rule ieee_sub_self)
  from c have "c \<noteq> NaN" by (simp add: is_finite_def)
  then have "is_zero (np_div lib (Fin 0) c)"
    using ieee_div_zero [OF lib _ c(2)] by (simp add: is_zero_def)
  then show ?thesis unfolding momentum_def s by (intro ieee_sub_zeros [OF lib])
qed

lemma compute_column:
  assumes lp: "length prices = window_length" and lr: "length returns = window_length"
    and wp: "\<forall>r\<in>set prices. length r = n" and wr: "\<forall>r\<in>set returns. length r = n"
    and j: "j < n"
  shows "\<exists>out. compute lib prices returns = Inr out \<and> length out = n \<and>
           out ! j = np_div lib (momentum lib (prices ! 0 ! j) (prices ! 231 ! j) (prices ! 251 ! j))
                                (np_nanstd lib (column returns j))"
proof -
  have l: "length prices = 252" "length returns = 252"
    using lp lr by (simp_all add: window_length_def)
  have rows: "length (prices ! 0) = n" "length (prices ! 231) = n" "length (prices ! 251) = n"
    using wp l by simp_all
  have "returns \<noteq> []" using l by auto
  then have nc: "ncols returns = n" using wr by (rule ncols_rect)
  let ?out = "vdiv lib (vsub lib (vdiv lib (vsub lib (prices ! 231) (prices ! 0)) (prices ! 0))
                         (vdiv lib (vsub lib (prices ! 251) (prices ! 231)) (prices ! 231)))
                   (nanstd_axis0 lib returns)"
  have c: "compute lib prices returns = Inr ?out"
    using l by (simp add: compute_def py_index_252)
  have len: "length ?out = n"
    using rows nc by (simp add: vdiv_def vsub_def nanstd_axis0_def)
  have nth: "?out ! j = np_div lib (momentum lib (prices ! 0 ! j) (prices ! 231 ! j) (prices ! 251 ! j))
                          (np_nanstd lib (column returns j))"
    using rows nc j by (simp add: vdiv_def vsub_def nanstd_axis0_def momentum_def)
  from c len nth show ?thesis by blast
qed

text \<open>
  Claim C9, as amended. In \<open>MyFactor.compute\<close> the value of an asset is
  \<open>((prices[-21] - prices[-252]) / prices[-252] - (prices[-1] - prices[-21]) / prices[-21])
  / nanstd(returns)\<close>, and none of the three divisors is guarded against zero. For
  every numeric library that follows IEEE 754, arrays of \<open>window_length\<close> rows and \<open>n\<close>
  columns and an asset \<open>j < n\<close>: \<open>compute\<close> raises nothing and returns \<open>n\<close> values; the
  value of asset \<open>j\<close> is that quotient of column \<open>j\<close> (the rows 0, 231 and 251 of the
  window are \<open>prices[-252]\<close>, \<open>prices[-21]\<close> and \<open>prices[-1]\<close>); and the value is a
  finite number only when \<open>prices[-252]\<close>, \<open>prices[-21]\<close> and the standard deviation of
  the returns are all different from zero. When the asset's price is the same positive
  number on every day of the window, the numerator is exactly 0; the value is then NaN
  when the standard deviation of the returns window is 0 or NaN, as it is when every
  return in the window is 0, and it is 0, not NaN, when the standard deviation is any
  other number.
\<close>

theorem MyFactor_compute_divisors_unguarded:
  assumes lib: "ieee754 lib"
    and lp: "length prices = window_length" and lr: "length returns = window_length"
    and wp: "\<forall>r\<in>set prices. length r = n" and wr: "\<forall>r\<in>set returns. length r = n"
    and j: "j < n"
  shows "py_index prices (- 252) = Inr (prices ! 0)
       \<and> py_index prices (- 21) = Inr (prices ! 231)
       \<and> py_index prices (- 1) = Inr (prices ! 251)
       \<and> (\<exists>out. compute lib prices returns = Inr out \<and> length out = n
         \<and> out ! j = np_div lib (momentum lib (prices ! 0 ! j) (prices ! 231 ! j) (prices ! 251 ! j))
                                (np_nanstd lib (column returns j))
         \<and> (is_finite (out ! j) \<longrightarrow>
               \<not> is_zero (prices ! 0 ! j) \<and> \<not> is_zero (prices ! 231 ! j)
               \<and> \<not> is_zero (np_nanstd lib (column returns j)))
         \<and> (\<forall>c. 0 < c \<and> (\<forall>r\<in>set prices. r ! j = Fin c) \<longrightarrow>
               is_zero (momentum lib (prices ! 0 ! j) (prices ! 231 ! j) (prices ! 251 ! j))
               \<and> (is_zero (np_nanstd lib (column returns j))
                    \<or> np_nanstd lib (column returns j) = NaN \<longrightarrow> out ! j = NaN)
               \<and> (\<not> is_zero (np_nanstd lib (column returns j))
                    \<and> np_nanstd lib (column returns j) \<noteq> NaN \<longrightarrow> is_zero (out ! j))
               \<and> ((\<forall>r\<in>set returns. is_zero (r ! j)) \<longrightarrow>
                    is_zero (np_nanstd lib (column returns j)) \<and> out ! j = NaN)))"
proof -
  let ?num = "momentum lib (prices ! 0 ! j) (prices ! 231 ! j) (prices ! 251 ! j)"
  let ?sd = "np_nanstd lib (column returns j)"
  from compute_column [OF lp lr wp wr j] obtain out
    where out: "compute lib prices returns = Inr out" "length out = n"
               "out ! j = np_div lib ?num ?sd"
    by blast
  have l: "length prices = 252" "length returns = 252"
    using lp lr by (simp_all add: window_length_def)
  have only: "\<not> is_zero (prices ! 0 ! j) \<and> \<not> is_zero (prices ! 231 ! j) \<and> \<not> is_zero ?sd"
    if "is_finite (out ! j)"
  proof -
    from that out(3) have "is_finite (np_div lib ?num ?sd)" by simp
    then have "is_finite ?num \<and> \<not> is_zero ?sd" by (rule ieee_div_finite [OF lib])
    then show ?thesis using momentum_finite [OF lib] by blast
  qed
  have flat: "is_zero ?num
              \<and> (is_zero ?sd \<or> ?sd = NaN \<longrightarrow> out ! j = NaN)
              \<and> (\<not> is_zero ?sd \<and> ?sd \<noteq> NaN \<longrightarrow> is_zero (out ! j))
              \<and> ((\<forall>r\<in>set returns. is_zero (r ! j)) \<longrightarrow> is_zero ?sd \<and> out ! j = NaN)"
    if c: "0 < c" and pc: "\<forall>r\<in>set prices. r ! j = Fin c" for c
  proof -
    have "prices ! 0 \<in> set prices" "prices ! 231 \<in> set prices" "prices ! 251 \<in> set prices"
      using l by simp_all
    with pc have "?num = momentum lib (Fin c) (Fin c) (Fin c)" by simp
    moreover have "is_finite (Fin c)" "\<not> is_zero (Fin c)"
      using c by (simp_all add: is_finite_def is_zero_def)
    ultimately have num: "is_zero ?num" using momentum_constant [OF lib] by simp
    have nan: "out ! j = NaN" if "is_zero ?sd \<or> ?sd = NaN"
      using ieee_div_nan [OF lib num that] out(3) by simp
    have zero: "is_zero (out ! j)" if "\<not> is_zero ?sd" "?sd \<noteq> NaN"
      using ieee_div_zero [OF lib num that] out(3) by simp
    have sdz: "is_zero ?sd" if "\<forall>r\<in>set returns. is_zero (r ! j)"
    proof -
      have "column returns j \<noteq> []" using l by (auto simp: column_def)
      moreover have "\<forall>x\<in>set (column returns j). is_zero x"
        using that by (simp add: column_def)
      ultimately show ?thesis by (rule ieee_nanstd_zeros [OF lib])
    qed
    from num nan zero sdz show ?thesis by blast
  qed
  from out only flat
  have "\<exists>out. compute lib prices returns = Inr out \<and> length out = n
         \<and> out ! j = np_div lib ?num ?sd
         \<and> (is_finite (out ! j) \<longrightarrow>
               \<not> is_zero (prices ! 0 ! j) \<and> \<not> is_zero (prices ! 231 ! j) \<and> \<not> is_zero ?sd)
         \<and> (\<forall>c. 0 < c \<and> (\<forall>r\<in>set prices. r ! j = Fin c) \<longrightarrow>
               is_zero ?num
               \<and> (is_zero ?sd \<or> ?sd = NaN \<longrightarrow> out ! j = NaN)
               \<and> (\<not> is_zero ?sd \<and> ?sd \<noteq> NaN \<longrightarrow> is_zero (out ! j))
               \<and> ((\<forall>r\<in>set returns. is_zero (r ! j)) \<longrightarrow> is_zero ?sd \<and> out ! j = NaN))"
    by blast
  with py_index_252 [OF l(1)] show ?thesis by simp
qed


text \<open>
  The theorem in the arithmetic without rounding, at one asset whose price is 5 on each
  of the 252 days and whose returns are 0: the factor value is NaN.
\<close>

theorem MyFactor_compute_divisors_unguarded_witness:
  "ieee754 exact \<and> compute exact (replicate 252 [Fin 5]) (replicate 252 [Fin 0]) = Inr [NaN]"
proof -
  have shape: "length (replicate 252 [Fin 5]) = window_length"
    "length (replicate 252 [Fin 0]) = window_length"
    "\<forall>r\<in>set (replicate 252 [Fin 5]). length r = 1"
    "\<forall>r\<in>set (replicate 252 [Fin 0]). length r = 1" "(0::nat) < 1"
    by (simp_all add: window_length_def)
  from MyFactor_compute_divisors_unguarded [OF ieee754_exact shape]
  obtain out where out: "compute exact (replicate 252 [Fin 5]) (replicate 252 [Fin 0]) = Inr out"
      "length out = 1"
      "\<forall>c. 0 < c \<and> (\<forall>r\<in>set (replicate 252 [Fin 5]). r ! 0 = Fin c) \<longrightarrow>
            ((\<forall>r\<in>set (replicate 252 [Fin 0]). is_zero (r ! 0)) \<longrightarrow> out ! 0 = NaN)"
    by blast
  from out(3) have "out ! 0 = NaN" by (simp add: is_zero_def)
  with out(2) have "out = [NaN]" by (cases out) simp_all
  with out(1) ieee754_exact show ?thesis by simp
qed


text \<open>
  In the arithmetic without rounding, the standard deviation of 125 returns of 0.25
  followed by 127 returns of 0 is a positive number.
\<close>

lemma exact_nanstd_rise:
  "\<exists>s. 0 < s \<and> exact_nanstd (replicate 125 (Fin (1/4)) @ replicate 127 (Fin 0)) = Fin s"
proof -
  let ?ps = "replicate 125 (1/4) @ replicate 127 (0::real)"
  have m: "map Fin ?ps = replicate 125 (Fin (1/4)) @ replicate 127 (Fin 0)" by simp
  have "0 < sum_list (sqdev ?ps) / real (length ?ps)"
    by (simp add: sqdev_def sum_list_replicate)
  then have "0 < sqrt (sum_list (sqdev ?ps) / real (length ?ps))" by simp
  moreover have "exact_nanstd (map Fin ?ps) = Fin (sqrt (sum_list (sqdev ?ps) / real (length ?ps)))"
    by (rule exact_nanstd_map_Fin) simp
  ultimately show ?thesis unfolding m by blast
qed

text \<open>
  Claim C9 as stated has the standard deviation of the returns be 0, and the value NaN,
  whenever the prices of the window are one positive constant. That fails: the returns
  window is a separate input. For an asset that closed at 4 before the window and at 5
  on each of its 252 days, the 126-day returns are 0.25 on the first 125 days and 0 on
  the other 127: their standard deviation is not 0, and the factor value is 0.
\<close>

theorem MyFactor_constant_prices_value_zero:
  "compute exact (replicate 252 [Fin 5]) (replicate 125 [Fin (1/4)] @ replicate 127 [Fin 0])
   = Inr [Fin 0]"
proof -
  let ?prices = "replicate 252 [Fin 5]"
  let ?returns = "replicate 125 [Fin (1/4)] @ replicate 127 [Fin 0]"
  have shape: "length ?prices = window_length" "length ?returns = window_length"
    "\<forall>r\<in>set ?prices. length r = 1" "\<forall>r\<in>set ?returns. length r = 1" "(0::nat) < 1"
    by (simp_all add: window_length_def)
  from compute_column [OF shape, of exact]
  obtain out where out: "compute exact ?prices ?returns = Inr out" "length out = 1"
    "out ! 0 = np_div exact (momentum exact (?prices ! 0 ! 0) (?prices ! 231 ! 0) (?prices ! 251 ! 0))
                 (np_nanstd exact (column ?returns 0))"
    by blast
  have num: "momentum exact (Fin 5) (Fin 5) (Fin 5) = Fin 0"
    by (simp add: momentum_def exact_def exact_sub_Fin exact_div_Fin_pos)
  have col: "column ?returns 0 = replicate 125 (Fin (1/4)) @ replicate 127 (Fin 0)"
    by (simp add: column_def)
  from exact_nanstd_rise obtain s where s: "0 < s" "exact_nanstd (column ?returns 0) = Fin s"
    unfolding col by blast
  have "out ! 0 = exact_div (momentum exact (Fin 5) (Fin 5) (Fin 5)) (exact_nanstd (column ?returns 0))"
    using out(3) by (simp add: exact_def)
  with num s have "out ! 0 = Fin 0" by (simp add: exact_div_Fin_pos)
  with out(2) have "out = [Fin 0]" by (cases out) simp_all
  with out(1) show ?thesis by simp
qed

section \<open>The moving-average crossover: what \<open>sma_20\<close> averages\<close>

lemma handler_placed:
  "placed (snd (ma_crossover_handling lib ctx data open_orders p)) =
     (let hist = data (aapl ctx) ''price'' 50 ''1d'' in
      if fgt (sma_20 lib hist) (sma_50 lib hist) then
        (if aapl ctx \<notin> dom open_orders then placed p @ [(aapl ctx, 1)] else placed p)
      else if fgt (sma_50 lib hist) (sma_20 lib hist) then
        (if aapl ctx \<notin> dom open_orders then placed p @ [(aapl ctx, - 1)] else placed p)
      else placed p)"
  by (simp add: ma_crossover_handling_def order_target_percent_def Let_def split: option.split)


text \<open>
  Claim C10. In \<open>ma_crossover_handling\<close>, \<open>sma_20\<close> is \<open>hist[:-20].mean()\<close>: for the
  history of 50 daily prices the slice is the first 30 entries, which are all the entries
  but the 20 most recent ones, so \<open>sma_20\<close> is the mean of the oldest 30 prices, and
  \<open>sma_50\<close> is the mean of all 50 (each mean is the float that \<open>Series.mean()\<close> returns).
  \<open>sma_20\<close> is not a moving average of the latest prices: replacing the 20 latest
  prices by any others leaves it unchanged. The two branches compare the two means as
  numbers. When the two means are equal, and whenever neither is greater than the
  other, neither branch runs and no order is placed. When
  \<open>sma_20\<close> is the greater and the asset has no open order, the one order placed
  targets 1.0; when \<open>sma_50\<close> is the greater, \<open>-1.0\<close>.
\<close>

theorem ma_crossover_sma_20_is_mean_of_oldest_30:
  assumes len: "length hist = 50"
    and hist: "data (aapl ctx) ''price'' 50 ''1d'' = hist"
  shows "py_slice_stop hist (- 20) = take 30 hist
       \<and> take 30 hist @ drop 30 hist = hist
       \<and> length (take 30 hist) = 30 \<and> length (drop 30 hist) = 20
       \<and> sma_20 lib hist = pd_mean lib (take 30 hist)
       \<and> sma_50 lib hist = pd_mean lib hist
       \<and> (\<forall>latest. length latest = 20 \<longrightarrow> sma_20 lib (take 30 hist @ latest) = sma_20 lib hist)
       \<and> (\<forall>a b. sma_20 lib hist = Fin a \<and> sma_50 lib hist = Fin b \<longrightarrow>
            (fgt (sma_20 lib hist) (sma_50 lib hist) \<longleftrightarrow> b < a)
            \<and> (fgt (sma_50 lib hist) (sma_20 lib hist) \<longleftrightarrow> a < b))
       \<and> (sma_20 lib hist = sma_50 lib hist \<longrightarrow>
            placed (snd (ma_crossover_handling lib ctx data open_orders p)) = placed p)
       \<and> (\<not> fgt (sma_20 lib hist) (sma_50 lib hist) \<and> \<not> fgt (sma_50 lib hist) (sma_20 lib hist) \<longrightarrow>
            placed (snd (ma_crossover_handling lib ctx data open_orders p)) = placed p)
       \<and> (fgt (sma_20 lib hist) (sma_50 lib hist) \<and> aapl ctx \<notin> dom open_orders \<longrightarrow>
            placed (snd (ma_crossover_handling lib ctx data open_orders p))
              = placed p @ [(aapl ctx, 1)])
       \<and> (\<not> fgt (sma_20 lib hist) (sma_50 lib hist) \<and> fgt (sma_50 lib hist) (sma_20 lib hist)
             \<and> aapl ctx \<notin> dom open_orders \<longrightarrow>
            placed (snd (ma_crossover_handling lib ctx data open_orders p))
              = placed p @ [(aapl ctx, - 1)])"
proof -
  have sl: "py_slice_stop hist (- 20) = take 30 hist"
    using len by (rule py_slice_stop_50)
  have s20: "sma_20 lib hist = pd_mean lib (take 30 hist)"
    by (simp add: sma_20_def sl)
  have s50: "sma_50 lib hist = pd_mean lib hist"
    by (simp add: sma_50_def)
  have latest: "sma_20 lib (take 30 hist @ latest) = sma_20 lib hist"
    if "length latest = 20" for latest
  proof -
    have "length (take 30 hist @ latest) = 50" using len that by simp
    then have "py_slice_stop (take 30 hist @ latest) (- 20) = take 30 (take 30 hist @ latest)"
      by (rule py_slice_stop_50)
    also have "\<dots> = take 30 hist" using len by simp
    finally show ?thesis by (simp add: sma_20_def sl)
  qed
  note pl = handler_placed [of lib ctx data open_orders p, unfolded hist Let_def]
  have eq: "placed (snd (ma_crossover_handling lib ctx data open_orders p)) = placed p"
    if "sma_20 lib hist = sma_50 lib hist"
    using that pl by (simp add: fgt_irrefl)
  have neither: "placed (snd (ma_crossover_handling lib ctx data open_orders p)) = placed p"
    if "\<not> fgt (sma_20 lib hist) (sma_50 lib hist)" "\<not> fgt (sma_50 lib hist) (sma_20 lib hist)"
    using that pl by simp
  have up: "placed (snd (ma_crossover_handling lib ctx data open_orders p))
              = placed p @ [(aapl ctx, 1)]"
    if "fgt (sma_20 lib hist) (sma_50 lib hist)" "aapl ctx \<notin> dom open_orders"
    using that pl by simp
  have down: "placed (snd (ma_crossover_handling lib ctx data open_orders p))
              = placed p @ [(aapl ctx, - 1)]"
    if "\<not> fgt (sma_20 lib hist) (sma_50 lib hist)" "fgt (sma_50 lib hist) (sma_20 lib hist)"
       "aapl ctx \<notin> dom open_orders"
    using that pl by simp
  have cmp: "(fgt (sma_20 lib hist) (sma_50 lib hist) \<longleftrightarrow> b < a)
             \<and> (fgt (sma_50 lib hist) (sma_20 lib hist) \<longleftrightarrow> a < b)"
    if "sma_20 lib hist = Fin a" "sma_50 lib hist = Fin b" for a b
    using that by (simp add: fgt_def)
  from sl s20 s50 latest cmp eq neither up down len show ?thesis by simp
qed


text \<open>
  The theorem in the arithmetic without rounding, at a history of 50 prices that are all
  7: both means are 7 and the handler places no order.
\<close>

theorem ma_crossover_sma_20_is_mean_of_oldest_30_witness:
  "length (replicate 50 (Fin 7)) = 50
   \<and> sma_20 exact (replicate 50 (Fin 7)) = Fin 7
   \<and> sma_50 exact (replicate 50 (Fin 7)) = Fin 7
   \<and> placed (snd (ma_crossover_handling exact \<lparr>aapl = sid 24, account = Map.empty\<rparr>
        (\<lambda>a field n freq. replicate 50 (Fin 7)) (Map.empty :: asset \<rightharpoonup> unit)
        \<lparr>logged = [], placed = [], recorded = []\<rparr>)) = []"
proof -
  let ?hist = "replicate 50 (Fin 7)"
  have m: "pd_mean exact (take 30 ?hist) = Fin 7" "pd_mean exact ?hist = Fin 7"
    by (simp_all add: exact_def exact_mean_replicate_Fin)
  from ma_crossover_sma_20_is_mean_of_oldest_30
    [of ?hist "\<lambda>a field n freq. ?hist" "\<lparr>aapl = sid 24, account = Map.empty\<rparr>" exact
        "Map.empty :: asset \<rightharpoonup> unit" "\<lparr>logged = [], placed = [], recorded = []\<rparr>"]
  show ?thesis using m by simp
qed

end
